theory Spec2Isabelle
  imports Complex_Main
begin

section \<open>Numbers of the source language\<close>

text \<open>
  The program is JavaScript; every number in it is an IEEE double. The embedding keeps the
  three special values of a double (\<open>NaN\<close>, \<open>+Infinity\<close>, \<open>-Infinity\<close>), because the
  source tests for them (\<open>isNaN\<close>, \<open>Number.isFinite\<close>, \<open>!x\<close>), and takes every finite
  double as the real number it denotes, with exact arithmetic: rounding error, overflow of a
  finite result, and the sign of zero are outside the model. A missing (\<open>undefined\<close>)
  numeric field behaves in every numeric context of this program as \<open>NaN\<close> does
  (\<open>!x\<close> is true, comparisons are false, arithmetic gives \<open>NaN\<close>), so it is modelled by \<open>NaN\<close>.
\<close>

datatype jsnum = Val real | PInf | NInf | NaN

instantiation jsnum :: "{plus, minus, uminus, times, inverse, ord}"
begin

fun uminus_jsnum :: "jsnum \<Rightarrow> jsnum" where
  "uminus_jsnum (Val a) = Val (- a)"
| "uminus_jsnum PInf = NInf"
| "uminus_jsnum NInf = PInf"
| "uminus_jsnum NaN = NaN"

fun plus_jsnum :: "jsnum \<Rightarrow> jsnum \<Rightarrow> jsnum" where
  "plus_jsnum NaN y = NaN"
| "plus_jsnum x NaN = NaN"
| "plus_jsnum (Val a) (Val b) = Val (a + b)"
| "plus_jsnum PInf NInf = NaN"
| "plus_jsnum NInf PInf = NaN"
| "plus_jsnum PInf y = PInf"
| "plus_jsnum NInf y = NInf"
| "plus_jsnum (Val a) y = y"

definition minus_jsnum :: "jsnum \<Rightarrow> jsnum \<Rightarrow> jsnum" where
  "minus_jsnum x y = x + (- y)"

fun times_jsnum :: "jsnum \<Rightarrow> jsnum \<Rightarrow> jsnum" where
  "times_jsnum NaN y = NaN"
| "times_jsnum x NaN = NaN"
| "times_jsnum (Val a) (Val b) = Val (a * b)"
| "times_jsnum (Val a) PInf = (if a = 0 then NaN else if 0 < a then PInf else NInf)"
| "times_jsnum (Val a) NInf = (if a = 0 then NaN else if 0 < a then NInf else PInf)"
| "times_jsnum PInf (Val b) = (if b = 0 then NaN else if 0 < b then PInf else NInf)"
| "times_jsnum NInf (Val b) = (if b = 0 then NaN else if 0 < b then NInf else PInf)"
| "times_jsnum PInf PInf = PInf"
| "times_jsnum PInf NInf = NInf"
| "times_jsnum NInf PInf = NInf"
| "times_jsnum NInf NInf = PInf"

text \<open>Division by a zero takes the zero as \<open>+0\<close>.\<close>

fun divide_jsnum :: "jsnum \<Rightarrow> jsnum \<Rightarrow> jsnum" where
  "divide_jsnum NaN y = NaN"
| "divide_jsnum x NaN = NaN"
| "divide_jsnum (Val a) (Val b) =
     (if b = 0 then (if a = 0 then NaN else if 0 < a then PInf else NInf) else Val (a / b))"
| "divide_jsnum (Val a) y = Val 0"
| "divide_jsnum PInf (Val b) = (if 0 \<le> b then PInf else NInf)"
| "divide_jsnum NInf (Val b) = (if 0 \<le> b then NInf else PInf)"
| "divide_jsnum x y = NaN"

definition inverse_jsnum :: "jsnum \<Rightarrow> jsnum" where
  "inverse_jsnum x = divide (Val 1) x"

fun less_eq_jsnum :: "jsnum \<Rightarrow> jsnum \<Rightarrow> bool" where
  "less_eq_jsnum NaN y = False"
| "less_eq_jsnum x NaN = False"
| "less_eq_jsnum (Val a) (Val b) = (a \<le> b)"
| "less_eq_jsnum NInf y = True"
| "less_eq_jsnum x PInf = True"
| "less_eq_jsnum x y = False"

fun less_jsnum :: "jsnum \<Rightarrow> jsnum \<Rightarrow> bool" where
  "less_jsnum NaN y = False"
| "less_jsnum x NaN = False"
| "less_jsnum (Val a) (Val b) = (a < b)"
| "less_jsnum PInf y = False"
| "less_jsnum x NInf = False"
| "less_jsnum x y = True"

instance ..

end

text \<open>\<open>isNaN\<close>, \<open>Number.isFinite\<close>, and the truth value of a number (\<open>!x\<close> is \<open>falsy x\<close>).\<close>

definition isNaN :: "jsnum \<Rightarrow> bool" where
  "isNaN x = (x = NaN)"

fun isFinite :: "jsnum \<Rightarrow> bool" where
  "isFinite (Val a) = True"
| "isFinite x = False"

definition falsy :: "jsnum \<Rightarrow> bool" where
  "falsy x = (x = Val 0 \<or> x = NaN)"

text \<open>\<open>Math.round\<close> rounds to the nearest integer, a half upwards.\<close>

fun Math_round :: "jsnum \<Rightarrow> jsnum" where
  "Math_round (Val a) = Val (of_int \<lfloor>a + 1 / 2\<rfloor>)"
| "Math_round x = x"

fun Math_min :: "jsnum \<Rightarrow> jsnum \<Rightarrow> jsnum" where
  "Math_min NaN y = NaN"
| "Math_min x NaN = NaN"
| "Math_min x y = (if x \<le> y then x else y)"

fun Math_max :: "jsnum \<Rightarrow> jsnum \<Rightarrow> jsnum" where
  "Math_max NaN y = NaN"
| "Math_max x NaN = NaN"
| "Math_max x y = (if x \<le> y then y else x)"

text \<open>
  The operator \<open>**\<close>. The source uses it with the exponents \<open>1.0\<close>, \<open>0.75\<close> and \<open>2\<close> only,
  all positive, and the equations below are those of \<open>Math.pow\<close> for a positive exponent.
\<close>

fun jpow :: "jsnum \<Rightarrow> real \<Rightarrow> jsnum" where
  "jpow NaN y = NaN"
| "jpow PInf y = PInf"
| "jpow NInf y = (if y = 1 then NInf else PInf)"
| "jpow (Val a) y =
     (if y = 1 then Val a
      else if y = 2 then Val (a * a)
      else if a < 0 then NaN
      else Val (a powr y))"

section \<open>Growth estimation\<close>

record growth =
  height :: jsnum
  weight :: jsnum

definition estimateGrowth :: "jsnum \<Rightarrow> string \<Rightarrow> growth" where
  "estimateGrowth age gender =
     (if age < Val 0 then \<lparr>height = Val 50, weight = Val 3\<rparr>
      else if age = Val 0 then \<lparr>height = Val 60, weight = Val 6\<rparr>
      else if age \<le> Val 12 then
        (let h = Val 75 + (age - Val 1) * Val 6.8;
             w = Val 9 + (age - Val 1) * Val 3.0
         in \<lparr>height = Math_round h, weight = Math_round w\<rparr>)
      else if age \<le> Val 18 then
        (if gender = ''male'' then
           (let h = Val 150 + (age - Val 12) * Val 3.5;
                w = Val 40 + (age - Val 12) * Val 4.2
            in \<lparr>height = Math_min (Math_round h) (Val 171),
                weight = Math_min (Math_round w) (Val 65)\<rparr>)
         else
           (let h = Val 150 + (age - Val 12) * Val 1.5;
                w = Val 40 + (age - Val 12) * Val 2.0
            in \<lparr>height = Math_min (Math_round h) (Val 158),
                weight = Math_min (Math_round w) (Val 53)\<rparr>))
      else if gender = ''male'' then \<lparr>height = Val 171, weight = Val 68\<rparr>
      else \<lparr>height = Val 158, weight = Val 53\<rparr>)"

section \<open>Parameter resolution\<close>

record patient = growth +
  age :: jsnum
  gender :: string

record PKParameters =
  V1 :: jsnum
  V2 :: jsnum
  V3 :: jsnum
  Cl :: jsnum
  Q2 :: jsnum
  Q3 :: jsnum
  ke0 :: jsnum

definition calculateLBM :: "jsnum \<Rightarrow> jsnum \<Rightarrow> string \<Rightarrow> jsnum" where
  "calculateLBM w h g =
     (if falsy h \<or> falsy w then w
      else if g = ''male'' then (Val 1.1 * w) - (Val 128 * (jpow (w / h) 2))
      else (Val 1.07 * w) - (Val 148 * (jpow (w / h) 2)))"

text \<open>The table of the models offered for each drug.\<close>

definition AVAILABLE_MODELS :: "string \<Rightarrow> string list" where
  "AVAILABLE_MODELS d =
     (if d = ''Fentanyl'' then
        [''Bae (2020) Adult'', ''Shafer (Adult)'', ''Ginsberg (Pediatric)'', ''Scott (Peds/Adult)'']
      else if d = ''Remifentanil'' then [''Minto (Adult)'', ''Rigby-Jones (Pediatric)'']
      else if d = ''Morphine'' then [''Maitre (Adult)'', ''McFarlan (Pediatric)'']
      else if d = ''Hydromorphone'' then
        [''Jeleazcov (2014) Adult'', ''Balyan (2020) Pediatric'', ''Standard (Adult)'',
         ''Pediatric (Scaled)'']
      else if d = ''Methadone'' then [''Standard (Adult)'']
      else if d = ''Sufentanil'' then
        [''Gepts (1995) Adult'', ''Bartkowska-Sniatkowska (2016) PICU'']
      else [])"

text \<open>The neutral defaults returned for a missing or non-positive weight.\<close>

definition neutral_defaults :: PKParameters where
  "neutral_defaults =
     \<lparr>V1 = Val 1, V2 = Val 1, V3 = Val 0, Cl = Val 1, Q2 = Val 0, Q3 = Val 0, ke0 = Val 0.1\<rparr>"

text \<open>The value of \<open>params\<close> before any branch assigns to it.\<close>

definition zero_params :: PKParameters where
  "zero_params =
     \<lparr>V1 = Val 0, V2 = Val 0, V3 = Val 0, Cl = Val 0, Q2 = Val 0, Q3 = Val 0, ke0 = Val 0\<rparr>"

text \<open>
  The chain of branches on drug and model of \<open>getPKParameters\<close>, up to (not including) the
  final guard on \<open>V1\<close>: the value of \<open>params\<close> when the guard is reached.
\<close>

definition computed_params :: "string \<Rightarrow> string \<Rightarrow> patient \<Rightarrow> PKParameters" where
  "computed_params drug model p =
    (let weight = weight p; age = age p in
     if drug = ''Fentanyl'' then
       (if model = ''Bae (2020) Adult'' then
          (let wRatio = weight / Val 70 in
           \<lparr>V1 = Val 10.1 * jpow wRatio 1, V2 = Val 26.5 * jpow wRatio 1,
            V3 = Val 206.0 * jpow wRatio 1, Cl = Val 0.704 * jpow wRatio 0.75,
            Q2 = Val 2.38 * jpow wRatio 0.75, Q3 = Val 1.49 * jpow wRatio 0.75,
            ke0 = Val 0.147\<rparr>)
        else if model = ''Shafer (Adult)'' then
          \<lparr>V1 = Val 15, V2 = Val 40, V3 = Val 200, Cl = Val 0.5, Q2 = Val 1.5, Q3 = Val 1.0,
           ke0 = Val 0.14\<rparr>
        else if model = ''Ginsberg (Pediatric)'' then
          \<lparr>V1 = Val 0.5 * weight, V2 = Val 1.8 * weight, V3 = Val 8.5 * weight,
           Cl = Val 0.022 * weight, Q2 = Val 0.05 * weight, Q3 = Val 0.03 * weight,
           ke0 = Val 0.16\<rparr>
        else if model = ''Scott (Peds/Adult)'' then
          (let wRatio = weight / Val 70 in
           \<lparr>V1 = Val 4.61 * wRatio, V2 = Val 16.9 * wRatio, V3 = Val 189 * wRatio,
            Cl = Val 0.78 * wRatio, Q2 = Val 1.25 * wRatio, Q3 = Val 0.96 * wRatio,
            ke0 = Val 0.13\<rparr>)
        else
          (let wRatio = weight / Val 70 in
           \<lparr>V1 = Val 10.1 * wRatio, V2 = Val 26.5 * wRatio, V3 = Val 206 * wRatio,
            Cl = Val 0.704 * jpow wRatio 0.75, Q2 = Val 2.38 * jpow wRatio 0.75,
            Q3 = Val 1.49 * jpow wRatio 0.75, ke0 = Val 0.147\<rparr>))
     else if drug = ''Remifentanil'' then
       (if model = ''Minto (Adult)'' then
          (let lbm = calculateLBM weight (height p) (gender p);
               lbm_var = (if Val 0 < lbm then lbm else weight) in
           \<lparr>V1 = Val 5.1 - Val 0.0201 * (age - Val 40) + Val 0.072 * (lbm_var - Val 55),
            V2 = Val 9.82 - Val 0.0811 * (age - Val 40) + Val 0.108 * (lbm_var - Val 55),
            V3 = Val 5.42,
            Cl = Val 2.6 - Val 0.0162 * (age - Val 40) + Val 0.0191 * (lbm_var - Val 55),
            Q2 = Val 2.05 - Val 0.0301 * (age - Val 40),
            Q3 = Val 0.076 - Val 0.00113 * (age - Val 40),
            ke0 = Val 0.595 - Val 0.007 * (age - Val 40)\<rparr>)
        else if model = ''Rigby-Jones (Pediatric)'' then
          \<lparr>V1 = Val 0.7 * weight, V2 = Val 1.0 * weight, V3 = Val 0.7 * weight,
           Cl = Val 0.05 * weight, Q2 = Val 0.04 * weight, Q3 = Val 0.02 * weight,
           ke0 = Val 0.9\<rparr>
        else zero_params)
     else if drug = ''Morphine'' then
       (if model = ''McFarlan (Pediatric)'' then
          \<lparr>V1 = Val 0.5 * weight, V2 = Val 0.9 * weight, V3 = Val 2.0 * weight,
           Cl = Val 0.03 * weight, Q2 = Val 0.06 * weight, Q3 = Val 0.015 * weight,
           ke0 = Val 0.01\<rparr>
        else if model = ''Maitre (Adult)'' then
          \<lparr>V1 = Val 0.2 * weight, V2 = Val 0.8 * weight, V3 = Val 2.5 * weight,
           Cl = Val 0.025 * weight, Q2 = Val 0.05 * weight, Q3 = Val 0.01 * weight,
           ke0 = Val 0.005\<rparr>
        else zero_params)
     else if drug = ''Hydromorphone'' then
       (if model = ''Jeleazcov (2014) Adult'' then
          (let wRatio = weight / Val 70;
               ageFactor = Math_max (Val 0.5) (Val 1 - Val 0.01 * (age - Val 67)) in
           \<lparr>V1 = Val 3.35 * wRatio, V2 = Val 13.9 * wRatio, V3 = Val 145.0 * wRatio,
            Cl = Val 1.01 * jpow wRatio 0.75 * ageFactor,
            Q2 = Val 1.47 * jpow wRatio 0.75, Q3 = Val 1.41 * jpow wRatio 0.75,
            ke0 = Val 0.02\<rparr>)
        else if model = ''Balyan (2020) Pediatric'' then
          (let wRatio = weight / Val 70 in
           \<lparr>V1 = Val 33.0 * jpow wRatio 1, V2 = Val 146.0 * jpow wRatio 1, V3 = Val 0,
            Cl = Val 0.748 * jpow wRatio 0.75, Q2 = Val 1.57 * jpow wRatio 0.75, Q3 = Val 0,
            ke0 = Val 0.03\<rparr>)
        else if model = ''Standard (Adult)'' then
          \<lparr>V1 = Val 0.25 * weight, V2 = Val 0.6 * weight, V3 = Val 4.0 * weight,
           Cl = Val 0.02 * weight, Q2 = Val 0.02 * weight, Q3 = Val 0.01 * weight,
           ke0 = Val 0.02\<rparr>
        else if model = ''Pediatric (Scaled)'' then
          (let wRatio = weight / Val 70 in
           \<lparr>V1 = Val 17.5 * wRatio, V2 = Val 42 * wRatio, V3 = Val 280 * wRatio,
            Cl = Val 1.4 * jpow wRatio 0.75, Q2 = Val 1.4 * jpow wRatio 0.75,
            Q3 = Val 0.7 * jpow wRatio 0.75, ke0 = Val 0.03\<rparr>)
        else
          (let wRatio = weight / Val 70 in
           \<lparr>V1 = Val 3.35 * wRatio, V2 = Val 13.9 * wRatio, V3 = Val 145.0 * wRatio,
            Cl = Val 1.01 * jpow wRatio 0.75, Q2 = Val 1.47 * jpow wRatio 0.75,
            Q3 = Val 1.41 * jpow wRatio 0.75, ke0 = Val 0.02\<rparr>))
     else if drug = ''Methadone'' then
       (let wRatio = weight / Val 70 in
        \<lparr>V1 = Val 21.5 * wRatio, V2 = Val 75.1 * wRatio, V3 = Val 484.0 * wRatio,
         Cl = (Val 9.45 / Val 60) * jpow wRatio 0.75,
         Q2 = (Val 325.0 / Val 60) * jpow wRatio 0.75,
         Q3 = (Val 136.0 / Val 60) * jpow wRatio 0.75,
         ke0 = Val 0.05\<rparr>)
     else if drug = ''Sufentanil'' then
       (if model = ''Gepts (1995) Adult'' then
          \<lparr>V1 = Val 14.2, V2 = Val 40.0, V3 = Val 217.0, Cl = Val 0.94, Q2 = Val 1.9,
           Q3 = Val 1.1, ke0 = Val 0.17\<rparr>
        else if model = ''Bartkowska-Sniatkowska (2016) PICU'' then
          (let wRatio = weight / Val 70 in
           \<lparr>V1 = Val 11.5 * wRatio, V2 = Val 40.0 * wRatio, V3 = Val 0,
            Cl = (Val 19.5 / Val 60) * jpow wRatio 0.75,
            Q2 = (Val 15.3 / Val 60) * jpow wRatio 0.75, Q3 = Val 0,
            ke0 = Val 0.15\<rparr>)
        else zero_params)
     else zero_params)"

definition getPKParameters :: "string \<Rightarrow> string \<Rightarrow> patient \<Rightarrow> PKParameters" where
  "getPKParameters drug model p =
     (if falsy (weight p) \<or> weight p \<le> Val 0 then neutral_defaults
      else
        (let params = computed_params drug model p in
         if isNaN (V1 params) \<or> V1 params \<le> Val 0.1 then params\<lparr>V1 := Val 1.0\<rparr>
         else params))"

section \<open>Unit conversion\<close>

definition isMgDrug :: "string \<Rightarrow> bool" where
  "isMgDrug drug = (drug \<in> set [''Morphine'', ''Hydromorphone'', ''Methadone''])"

definition valInMcgHr :: "jsnum \<Rightarrow> string \<Rightarrow> jsnum \<Rightarrow> jsnum" where
  "valInMcgHr rate unit wt =
     (if unit = ''mcg/hr'' then rate
      else if unit = ''mg/hr'' then rate * Val 1000
      else if unit = ''mcg/kg/min'' then rate * wt * Val 60
      else if unit = ''mcg/min'' then rate * Val 60
      else if unit = ''mcg/kg/hr'' then rate * wt
      else if unit = ''mg/kg/hr'' then rate * wt * Val 1000
      else rate)"

definition convertToStandardUnit :: "jsnum \<Rightarrow> string \<Rightarrow> jsnum \<Rightarrow> string \<Rightarrow> jsnum" where
  "convertToStandardUnit rate unit wt drug =
     (if isMgDrug drug then valInMcgHr rate unit wt / Val 1000
      else valInMcgHr rate unit wt)"

section \<open>The concentration simulator\<close>

text \<open>
  The events the simulator receives. The source keeps them as objects with a \<open>type\<close> tag
  (\<open>'bolus'\<close>, \<open>'infusion_start'\<close>, \<open>'infusion_stop'\<close>); the time of an event is a finite
  number (the order in which \<open>Array.prototype.sort\<close> leaves entries whose comparison is
  \<open>NaN\<close> is left open by the language).
\<close>

datatype DoseEvent =
    Bolus (time: real) jsnum
  | InfusionStart (time: real) jsnum
  | InfusionStop (time: real)

text \<open>
  A sample of the output. Its \<open>time\<close> field is \<open>Math.round(t)\<close>, an integer; it is named
  \<open>stime\<close> here, \<open>time\<close> being the field of an event.
\<close>

record ConcentrationSample =
  stime :: int
  cp :: jsnum
  ce :: jsnum

text \<open>
  \<open>parseFloat(x.toFixed(2))\<close> for a finite \<open>x\<close>: \<open>toFixed\<close> rounds the magnitude to the
  nearest multiple of \<open>1/100\<close>, a tie upwards, and prints numbers from \<open>10^21\<close> on unrounded.
\<close>

definition toFixed2 :: "real \<Rightarrow> real" where
  "toFixed2 x =
     (if 10 ^ 21 \<le> \<bar>x\<bar> then x
      else if x < 0 then - (of_int \<lfloor>- x * 100 + 1 / 2\<rfloor> / 100)
      else of_int \<lfloor>x * 100 + 1 / 2\<rfloor> / 100)"

text \<open>\<open>Number.isFinite(x) ? parseFloat(x.toFixed(2)) : 0\<close>\<close>

fun sample_value :: "jsnum \<Rightarrow> jsnum" where
  "sample_value (Val a) = Val (toFixed2 a)"
| "sample_value x = Val 0"

text \<open>\<open>if (!Number.isFinite(x)) x = 0\<close>\<close>

definition stability_guard :: "jsnum \<Rightarrow> jsnum" where
  "stability_guard x = (if \<not> isFinite x then Val 0 else x)"

record rate_constants =
  k10 :: jsnum
  k12 :: jsnum
  k21 :: jsnum
  k13 :: jsnum
  k31 :: jsnum

definition rate_consts :: "PKParameters \<Rightarrow> rate_constants" where
  "rate_consts params =
     \<lparr>k10 = Cl params / V1 params,
      k12 = Q2 params / V1 params,
      k21 = Q2 params / V2 params,
      k13 = (if Val 0 < V3 params then Q3 params / V1 params else Val 0),
      k31 = (if Val 0 < V3 params then Q3 params / V3 params else Val 0)\<rparr>"

definition scaleFactor :: "string \<Rightarrow> jsnum" where
  "scaleFactor drugType =
     (if drugType = ''Morphine'' \<or> drugType = ''Hydromorphone'' \<or> drugType = ''Methadone''
      then Val 1000 else Val 1)"

definition dt :: real where
  "dt = 1 / 6"

definition stepsPerMin :: nat where
  "stepsPerMin = nat \<lfloor>1 / dt + 1 / 2\<rfloor>"

record sim_state =
  x1 :: jsnum
  x2 :: jsnum
  x3 :: jsnum
  xe :: jsnum
  data :: "ConcentrationSample list"
  eventIndex :: nat
  currentInfusionRate :: jsnum

definition init_state :: sim_state where
  "init_state =
     \<lparr>x1 = Val 0, x2 = Val 0, x3 = Val 0, xe = Val 0, data = [], eventIndex = 0,
      currentInfusionRate = Val 0\<rparr>"

text \<open>The body of the inner \<open>while\<close> loop, without the increment of \<open>eventIndex\<close>.\<close>

fun apply_event :: "jsnum \<Rightarrow> DoseEvent \<Rightarrow> sim_state \<Rightarrow> sim_state" where
  "apply_event sc (Bolus tm a) s = s\<lparr>x1 := x1 s + a * sc\<rparr>"
| "apply_event sc (InfusionStart tm r) s = s\<lparr>currentInfusionRate := (r * sc) / Val 60\<rparr>"
| "apply_event sc (InfusionStop tm) s = s\<lparr>currentInfusionRate := Val 0\<rparr>"

text \<open>
  \<open>while (eventIndex < eventQueue.length && eventQueue[eventIndex].time <= t) { ... }\<close>
\<close>

function process_events :: "DoseEvent list \<Rightarrow> jsnum \<Rightarrow> real \<Rightarrow> sim_state \<Rightarrow> sim_state" where
  "process_events eventQueue sc t s =
     (if eventIndex s < length eventQueue \<and> time (eventQueue ! eventIndex s) \<le> t
      then process_events eventQueue sc t
             ((apply_event sc (eventQueue ! eventIndex s) s)\<lparr>eventIndex := eventIndex s + 1\<rparr>)
      else s)"
  by pat_completeness auto
termination
proof (relation "measure (\<lambda>(q, sc, t, s). length q - eventIndex s)")
  show "wf (measure (\<lambda>(q, sc, t, s). length q - eventIndex s))"
    by simp
next
  fix eventQueue :: "DoseEvent list" and sc :: jsnum and t :: real and s :: sim_state
  assume "eventIndex s < length eventQueue \<and> time (eventQueue ! eventIndex s) \<le> t"
  then show "((eventQueue, sc, t,
               (apply_event sc (eventQueue ! eventIndex s) s)\<lparr>eventIndex := eventIndex s + 1\<rparr>),
              (eventQueue, sc, t, s))
             \<in> measure (\<lambda>(q, sc, t, s). length q - eventIndex s)"
    by (cases "eventQueue ! eventIndex s") auto
qed

text \<open>
  The Euler update of one step, from the state left by the event loop: the four deltas are
  computed from the state before the update, then added, then each amount passes the
  stability guard.
\<close>

definition euler_update :: "PKParameters \<Rightarrow> rate_constants \<Rightarrow> sim_state \<Rightarrow> sim_state" where
  "euler_update params k s =
     (let dx1 = (currentInfusionRate s - (k10 k + k12 k + k13 k) * x1 s
                  + k21 k * x2 s + k31 k * x3 s) * Val dt;
          dx2 = (k12 k * x1 s - k21 k * x2 s) * Val dt;
          dx3 = (k13 k * x1 s - k31 k * x3 s) * Val dt;
          cp = x1 s / V1 params;
          dCe = (ke0 params * (cp - xe s)) * Val dt
      in s\<lparr>x1 := stability_guard (x1 s + dx1),
            x2 := stability_guard (x2 s + dx2),
            x3 := stability_guard (x3 s + dx3),
            xe := stability_guard (xe s + dCe)\<rparr>)"

text \<open>The sample pushed at the end of a sampling step, from the state after the update.\<close>

definition emit :: "PKParameters \<Rightarrow> real \<Rightarrow> sim_state \<Rightarrow> ConcentrationSample" where
  "emit params t s =
     (let cp = x1 s / V1 params
      in \<lparr>stime = \<lfloor>t + 1 / 2\<rfloor>, cp = sample_value cp, ce = sample_value (xe s)\<rparr>)"

text \<open>The body of the \<open>for\<close> loop at step \<open>step\<close>.\<close>

definition loop_body ::
  "DoseEvent list \<Rightarrow> PKParameters \<Rightarrow> rate_constants \<Rightarrow> jsnum \<Rightarrow> nat \<Rightarrow> sim_state \<Rightarrow> sim_state" where
  "loop_body eventQueue params k sc step s =
     (let t = real step * dt;
          s1 = process_events eventQueue sc t s;
          s2 = euler_update params k s1
      in if step mod stepsPerMin = 0 then s2\<lparr>data := data s2 @ [emit params t s2]\<rparr> else s2)"

text \<open>\<open>for (let step = 0; step <= totalSteps; step++) { ... }\<close>\<close>

function for_loop ::
  "DoseEvent list \<Rightarrow> PKParameters \<Rightarrow> rate_constants \<Rightarrow> jsnum \<Rightarrow> int \<Rightarrow> nat \<Rightarrow> sim_state
     \<Rightarrow> sim_state" where
  "for_loop eventQueue params k sc totalSteps step s =
     (if int step \<le> totalSteps
      then for_loop eventQueue params k sc totalSteps (Suc step)
             (loop_body eventQueue params k sc step s)
      else s)"
  by pat_completeness auto
termination
  by (relation "measure (\<lambda>(q, p, k, sc, T, step, s). nat (T + 1 - int step))") auto

text \<open>
  \<open>simulateConcentration\<close>. The duration is a finite number (for \<open>NaN\<close> the source runs no
  step, for \<open>Infinity\<close> its loop does not end); a negative duration gives no step.
  \<open>[...events].sort((a, b) => a.time - b.time)\<close> is a stable sort on the time, as
  \<open>sort_key time\<close> is.
\<close>

definition totalSteps :: "real \<Rightarrow> int" where
  "totalSteps durationMinutes = \<lfloor>durationMinutes / dt\<rfloor>"

definition simulateConcentration ::
  "DoseEvent list \<Rightarrow> PKParameters \<Rightarrow> real \<Rightarrow> string \<Rightarrow> ConcentrationSample list" where
  "simulateConcentration events params durationMinutes drugType =
     (if falsy (V1 params) \<or> V1 params \<le> Val 0 then []
      else
        (let eventQueue = sort_key time events
         in data (for_loop eventQueue params (rate_consts params) (scaleFactor drugType)
                    (totalSteps durationMinutes) 0 init_state)))"

section \<open>The dosing timeline of the application\<close>

text \<open>
  The entries of the application's \<open>events\<close> state: a bolus, or an infusion with its
  duration. The identifier of an entry is \<open>Date.now()\<close> in the source and a parameter here.
\<close>

datatype TimelineEvent =
    BolusEntry nat real jsnum
  | InfusionEntry nat real jsnum jsnum string real

text \<open>
  The part of the component's state that \<open>addInfusion\<close> and the simulation effect read.
  The numeric form fields are held as the numbers \<open>parseFloat\<close> gives for them.
\<close>

record app_state =
  events :: "TimelineEvent list"
  simDuration :: real
  infusionStartTime :: real
  infusionRate :: jsnum
  infusionUnit :: string
  infusionDuration :: real
  isInfiniteDuration :: bool
  isClockMode :: bool
  patient_weight :: jsnum
  drug :: string

text \<open>\<open>currentEvents.map(e => ({ ...e, time: e.time + offset }))\<close>\<close>

fun shift_event :: "real \<Rightarrow> TimelineEvent \<Rightarrow> TimelineEvent" where
  "shift_event offset (BolusEntry i tm a) = BolusEntry i (tm + offset) a"
| "shift_event offset (InfusionEntry i tm r r0 u d) = InfusionEntry i (tm + offset) r r0 u d"

text \<open>
  \<open>addInfusion\<close>. In clock mode a negative start moves the clock's start time back (a label,
  not modelled), shifts the entries forward and starts the new infusion at 0.
\<close>

definition addInfusion :: "nat \<Rightarrow> app_state \<Rightarrow> app_state" where
  "addInfusion now st =
     (let shifted = (isClockMode st \<and> infusionStartTime st < 0);
          offset = - infusionStartTime st;
          currentEvents = (if shifted then map (shift_event offset) (events st) else events st);
          newStartTime = (if shifted then 0 else infusionStartTime st);
          standardRate = convertToStandardUnit (infusionRate st) (infusionUnit st)
                           (patient_weight st) (drug st)
      in st\<lparr>events := currentEvents @
             [InfusionEntry now newStartTime standardRate (infusionRate st) (infusionUnit st)
                (if isInfiniteDuration st then simDuration st - newStartTime + 60
                 else infusionDuration st)]\<rparr>)"

text \<open>The expansion of the timeline in the simulation effect.\<close>

fun expand_event :: "TimelineEvent \<Rightarrow> DoseEvent list" where
  "expand_event (BolusEntry i tm a) = [Bolus tm a]"
| "expand_event (InfusionEntry i tm r r0 u d) = [InfusionStart tm r, InfusionStop (tm + d)]"

definition processedEvents :: "app_state \<Rightarrow> DoseEvent list" where
  "processedEvents st = concat (map expand_event (events st))"

section \<open>Inputs used as examples\<close>

definition adult_without_age :: patient where
  "adult_without_age = \<lparr>height = Val 170, weight = Val 70, age = NaN, gender = ''male''\<rparr>"

definition adult_without_weight :: patient where
  "adult_without_weight = \<lparr>height = Val 170, weight = NaN, age = Val 40, gender = ''male''\<rparr>"

definition adult_70kg :: patient where
  "adult_70kg = \<lparr>height = Val 170, weight = Val 70, age = Val 40, gender = ''male''\<rparr>"

definition patient_of_infinite_weight :: patient where
  "patient_of_infinite_weight =
     \<lparr>height = Val 170, weight = PInf, age = Val 40, gender = ''male''\<rparr>"

definition indefinite_form :: app_state where
  "indefinite_form =
     \<lparr>events = [], simDuration = 120, infusionStartTime = 10, infusionRate = Val 60,
      infusionUnit = ''mcg/hr'', infusionDuration = 60, isInfiniteDuration = True,
      isClockMode = False, patient_weight = Val 60, drug = ''Fentanyl''\<rparr>"

definition child_10kg_params :: PKParameters where
  "child_10kg_params =
     \<lparr>V1 = Val 7, V2 = Val 10, V3 = Val 7, Cl = Val 0.5, Q2 = Val 0.4, Q3 = Val 0.2,
      ke0 = Val 0.9\<rparr>"

definition overlapping_infusions :: "DoseEvent list" where
  "overlapping_infusions = [InfusionStart 0 (Val 420), InfusionStart 1 (Val 840), InfusionStop 3]"



section \<open>The states the loop passes through\<close>

text \<open>
  \<open>loop_state q p k sc n\<close> is the state of the \<open>for\<close> loop when it has run the steps
  \<open>0, ..., n - 1\<close>: the state at the top of step \<open>n\<close>, and for \<open>n = Suc m\<close> the state at the
  end of step \<open>m\<close>, after that step's events, Euler update and stability guard.
  \<open>sim_state_at\<close> is that state for the queue, rate constants and scale factor that
  \<open>simulateConcentration\<close> computes from its arguments.
\<close>

definition loop_state ::
  "DoseEvent list \<Rightarrow> PKParameters \<Rightarrow> rate_constants \<Rightarrow> jsnum \<Rightarrow> nat \<Rightarrow> sim_state" where
  "loop_state q p k sc n = fold (loop_body q p k sc) [0..<n] init_state"

definition sim_state_at ::
  "DoseEvent list \<Rightarrow> PKParameters \<Rightarrow> string \<Rightarrow> nat \<Rightarrow> sim_state" where
  "sim_state_at evs p dr n =
     loop_state (sort_key time evs) p (rate_consts p) (scaleFactor dr) n"

section \<open>Notions in which the properties of the simulator are stated\<close>

text \<open>
  The infusion events of a list, the last of them, and the rate that event sets: the rate of
  the most recent \<open>infusion_start\<close>, or 0 after an \<open>infusion_stop\<close> and when there is none.
\<close>

fun is_infusion_event :: "DoseEvent \<Rightarrow> bool" where
  "is_infusion_event (Bolus tm a) = False"
| "is_infusion_event (InfusionStart tm r) = True"
| "is_infusion_event (InfusionStop tm) = True"

definition last_infusion_event :: "DoseEvent list \<Rightarrow> DoseEvent option" where
  "last_infusion_event es =
     (if filter is_infusion_event es = [] then None
      else Some (last (filter is_infusion_event es)))"

fun rate_set_by :: "jsnum \<Rightarrow> DoseEvent \<Rightarrow> jsnum" where
  "rate_set_by sc (InfusionStart tm r) = (r * sc) / Val 60"
| "rate_set_by sc (InfusionStop tm) = Val 0"
| "rate_set_by sc (Bolus tm a) = Val 0"

definition active_rate :: "jsnum \<Rightarrow> DoseEvent list \<Rightarrow> jsnum" where
  "active_rate sc es =
     (case last_infusion_event es of None \<Rightarrow> Val 0 | Some e \<Rightarrow> rate_set_by sc e)"

text \<open>An event whose amount or rate is a finite number.\<close>

fun finite_dose :: "DoseEvent \<Rightarrow> bool" where
  "finite_dose (Bolus tm a) = isFinite a"
| "finite_dose (InfusionStart tm r) = isFinite r"
| "finite_dose (InfusionStop tm) = True"

text \<open>The state in which nothing has been given: all amounts and the rate are 0.\<close>

definition at_rest :: "sim_state \<Rightarrow> bool" where
  "at_rest s \<longleftrightarrow> x1 s = Val 0 \<and> x2 s = Val 0 \<and> x3 s = Val 0 \<and> xe s = Val 0
     \<and> currentInfusionRate s = Val 0"

text \<open>
  The events before \<open>eventIndex\<close> are not later than \<open>t\<close>, and the rate is the one set by the
  last infusion event among them.
\<close>

definition caught_up :: "DoseEvent list \<Rightarrow> jsnum \<Rightarrow> real \<Rightarrow> sim_state \<Rightarrow> bool" where
  "caught_up q sc t s \<longleftrightarrow>
     (\<forall>e \<in> set (take (eventIndex s) q). time e \<le> t)
     \<and> currentInfusionRate s = active_rate sc (take (eventIndex s) q)"

text \<open>
  \<open>is_sum x a b\<close>: the three numbers are finite and \<open>x\<close> is \<open>a + b\<close>. \<open>sum_or_lost\<close> also
  admits that none of the three is finite, which is what the stability guard then resets.
\<close>

definition is_sum :: "jsnum \<Rightarrow> jsnum \<Rightarrow> jsnum \<Rightarrow> bool" where
  "is_sum x a b \<longleftrightarrow> (\<exists>r s. a = Val r \<and> b = Val s \<and> x = Val (r + s))"






text \<open>
  The infusion rate in force at time \<open>t\<close>: the rate set by the last infusion event that is
  not later than \<open>t\<close>, 0 when there is none. It is the rate that the Euler update of a step
  at time \<open>t\<close> reads. \<open>rates_add A B sc T\<close>: at the time of every event of the two lists,
  up to two steps after step \<open>T\<close>, the rate in force for the concatenation is the sum of the
  rates in force for each of the lists; between two events no rate changes. It is so when at
  most one of the lists has infusion events and when the infusions of the two lists follow
  one another; it is not when they overlap, the later event overwriting the one rate of the
  loop.
\<close>

definition rate_at :: "DoseEvent list \<Rightarrow> jsnum \<Rightarrow> real \<Rightarrow> jsnum" where
  "rate_at evs sc t = active_rate sc (filter (\<lambda>e. time e \<le> t) (sort_key time evs))"

definition rates_add :: "DoseEvent list \<Rightarrow> DoseEvent list \<Rightarrow> jsnum \<Rightarrow> int \<Rightarrow> bool" where
  "rates_add A B sc T \<longleftrightarrow>
     list_all (\<lambda>t. is_sum (rate_at (A @ B) sc t) (rate_at A sc t) (rate_at B sc t))
       (filter (\<lambda>t. t \<le> real_of_int (T + 2) * dt) (map time (A @ B)))"





section \<open>Unit conversion: the six units and the fallback\<close>

text \<open>
  C5, as the code has it. The six units give the intermediate value in mcg/hr stated in the
  claim; the result is that value divided by 1000 for Morphine, Hydromorphone and Methadone
  and that value itself for every other drug; 2 mcg/kg/min at 10 kg of Fentanyl is 1200.
  An unrecognised unit makes the raw rate the intermediate value, which is then
  treated as every other intermediate value is: it is returned unchanged for a drug that is
  not mg-dosed, and divided by 1000 for a mg-dosed drug.
\<close>

theorem convertToStandardUnit_units:
  "valInMcgHr r ''mcg/hr'' wt = r
   \<and> valInMcgHr r ''mg/hr'' wt = r * Val 1000
   \<and> valInMcgHr r ''mcg/kg/min'' wt = r * wt * Val 60
   \<and> valInMcgHr r ''mcg/min'' wt = r * Val 60
   \<and> valInMcgHr r ''mcg/kg/hr'' wt = r * wt
   \<and> valInMcgHr r ''mg/kg/hr'' wt = r * wt * Val 1000
   \<and> (u \<notin> {''mcg/hr'', ''mg/hr'', ''mcg/kg/min'', ''mcg/min'', ''mcg/kg/hr'', ''mg/kg/hr''}
        \<longrightarrow> valInMcgHr r u wt = r)
   \<and> convertToStandardUnit r u wt dr =
        (if dr \<in> {''Morphine'', ''Hydromorphone'', ''Methadone''}
         then valInMcgHr r u wt / Val 1000 else valInMcgHr r u wt)
   \<and> convertToStandardUnit (Val 2) ''mcg/kg/min'' (Val 10) ''Fentanyl'' = Val 1200"
  by (simp add: convertToStandardUnit_def valInMcgHr_def isMgDrug_def)

theorem convertToStandardUnit_units_witness:
  "''drops/min'' \<notin> {''mcg/hr'', ''mg/hr'', ''mcg/kg/min'', ''mcg/min'', ''mcg/kg/hr'', ''mg/kg/hr''}
   \<and> valInMcgHr (Val 5) ''drops/min'' (Val 70) = Val 5
   \<and> convertToStandardUnit (Val 5) ''drops/min'' (Val 70) ''Fentanyl'' = Val 5
   \<and> convertToStandardUnit (Val 5) ''drops/min'' (Val 70) ''Morphine'' = Val 5 / Val 1000"
  using convertToStandardUnit_units [of "Val 5" "Val 70" "''drops/min''" "''Fentanyl''"]
    convertToStandardUnit_units [of "Val 5" "Val 70" "''drops/min''" "''Morphine''"]
  by simp

text \<open>
  C5 as stated fails: for the mg-dosed drug Morphine an unrecognised unit does not return
  the raw rate 5 but 5/1000.
\<close>

theorem convertToStandardUnit_unrecognised_unit_mg_drug:
  "convertToStandardUnit (Val 5) ''drops/min'' (Val 70) ''Morphine'' \<noteq> Val 5"
  by (simp add: convertToStandardUnit_def valInMcgHr_def isMgDrug_def)

section \<open>Parameter resolution: guards and fallbacks\<close>

lemma not_le_gt: "\<not> isNaN x \<Longrightarrow> \<not> x \<le> Val c \<Longrightarrow> Val c < x"
  by (cases x) (auto simp: isNaN_def)

lemma gt_weaken: "Val c < x \<Longrightarrow> d \<le> c \<Longrightarrow> Val d < x"
  by (cases x) auto

lemma pos_weight_passes: "Val 0 < w \<Longrightarrow> \<not> (falsy w \<or> w \<le> Val 0)"
  by (cases w) (auto simp: falsy_def)

lemma jpow_one: "jpow x 1 = x"
  by (cases x) simp_all

text \<open>
  C3, as the code has it. The returned \<open>V1\<close> is above 0.1, hence above 0, for every drug,
  model and patient. Past the weight guard, a computed \<open>V1\<close> that is \<open>NaN\<close> or at most 0.1
  (which includes \<open>-Infinity\<close>) is replaced by exactly 1, and every other computed \<open>V1\<close>,
  \<open>+Infinity\<close> among them, is returned as computed.
\<close>

theorem getPKParameters_V1_guard:
  "Val 0.1 < V1 (getPKParameters dr m p)
   \<and> Val 0 < V1 (getPKParameters dr m p)
   \<and> (\<not> (falsy (weight p) \<or> weight p \<le> Val 0) \<longrightarrow>
        (isNaN (V1 (computed_params dr m p)) \<or> V1 (computed_params dr m p) \<le> Val 0.1
           \<longrightarrow> V1 (getPKParameters dr m p) = Val 1)
      \<and> (\<not> isNaN (V1 (computed_params dr m p)) \<and> \<not> V1 (computed_params dr m p) \<le> Val 0.1
           \<longrightarrow> V1 (getPKParameters dr m p) = V1 (computed_params dr m p)))"
proof -
  have a: "Val 0.1 < V1 (getPKParameters dr m p)"
    by (auto simp: getPKParameters_def neutral_defaults_def Let_def not_le_gt)
  then have b: "Val 0 < V1 (getPKParameters dr m p)"
    by (rule gt_weaken) simp
  have c: "\<not> (falsy (weight p) \<or> weight p \<le> Val 0) \<longrightarrow>
        (isNaN (V1 (computed_params dr m p)) \<or> V1 (computed_params dr m p) \<le> Val 0.1
           \<longrightarrow> V1 (getPKParameters dr m p) = Val 1)
      \<and> (\<not> isNaN (V1 (computed_params dr m p)) \<and> \<not> V1 (computed_params dr m p) \<le> Val 0.1
           \<longrightarrow> V1 (getPKParameters dr m p) = V1 (computed_params dr m p))"
    by (simp add: getPKParameters_def Let_def)
  from a b c show ?thesis by blast
qed

theorem getPKParameters_V1_guard_witness:
  "\<not> (falsy (weight adult_without_age) \<or> weight adult_without_age \<le> Val 0)
   \<and> isNaN (V1 (computed_params ''Remifentanil'' ''Minto (Adult)'' adult_without_age))
   \<and> V1 (getPKParameters ''Remifentanil'' ''Minto (Adult)'' adult_without_age) = Val 1"
  using getPKParameters_V1_guard [of "''Remifentanil''" "''Minto (Adult)''" adult_without_age]
  by (simp add: adult_without_age_def falsy_def isNaN_def computed_params_def minus_jsnum_def)

text \<open>
  C3 as stated fails: at a weight of \<open>+Infinity\<close> the computed \<open>V1\<close> of the Fentanyl model
  of Bae is not finite, and it is returned, not replaced by 1.
\<close>

theorem getPKParameters_V1_infinite:
  "\<not> isFinite (V1 (computed_params ''Fentanyl'' ''Bae (2020) Adult'' patient_of_infinite_weight))
   \<and> V1 (getPKParameters ''Fentanyl'' ''Bae (2020) Adult'' patient_of_infinite_weight) \<noteq> Val 1"
  by (simp add: patient_of_infinite_weight_def getPKParameters_def computed_params_def
      falsy_def isNaN_def)

text \<open>
  C7. For every drug and model, a patient whose weight is missing (\<open>NaN\<close>) or at most 0
  gets exactly the neutral defaults.
\<close>

theorem getPKParameters_missing_weight:
  "weight p = NaN \<or> weight p \<le> Val 0 \<Longrightarrow>
     getPKParameters dr m p =
       \<lparr>V1 = Val 1, V2 = Val 1, V3 = Val 0, Cl = Val 1, Q2 = Val 0, Q3 = Val 0, ke0 = Val 0.1\<rparr>"
  by (auto simp: getPKParameters_def neutral_defaults_def falsy_def)

theorem getPKParameters_missing_weight_witness:
  "(weight adult_without_weight = NaN \<or> weight adult_without_weight \<le> Val 0)
   \<and> getPKParameters ''Morphine'' ''Maitre (Adult)'' adult_without_weight =
       \<lparr>V1 = Val 1, V2 = Val 1, V3 = Val 0, Cl = Val 1, Q2 = Val 0, Q3 = Val 0, ke0 = Val 0.1\<rparr>"
  using getPKParameters_missing_weight [of adult_without_weight "''Morphine''" "''Maitre (Adult)''"]
  by (simp add: adult_without_weight_def)

lemma computed_params_Remifentanil_unmatched:
  "m \<noteq> ''Minto (Adult)'' \<Longrightarrow> m \<noteq> ''Rigby-Jones (Pediatric)'' \<Longrightarrow>
     computed_params ''Remifentanil'' m p = zero_params"
  by (simp add: computed_params_def)

lemma computed_params_Morphine_unmatched:
  "m \<noteq> ''Maitre (Adult)'' \<Longrightarrow> m \<noteq> ''McFarlan (Pediatric)'' \<Longrightarrow>
     computed_params ''Morphine'' m p = zero_params"
  by (simp add: computed_params_def)

lemma computed_params_Sufentanil_unmatched:
  "m \<noteq> ''Gepts (1995) Adult'' \<Longrightarrow> m \<noteq> ''Bartkowska-Sniatkowska (2016) PICU'' \<Longrightarrow>
     computed_params ''Sufentanil'' m p = zero_params"
  by (simp add: computed_params_def)

lemma computed_params_Fentanyl_unmatched:
  "m \<notin> set (AVAILABLE_MODELS ''Fentanyl'') \<Longrightarrow>
     computed_params ''Fentanyl'' m p = computed_params ''Fentanyl'' ''Bae (2020) Adult'' p"
  by (simp add: AVAILABLE_MODELS_def computed_params_def jpow_one)

lemma computed_params_Hydromorphone_unmatched:
  "m \<notin> set (AVAILABLE_MODELS ''Hydromorphone'') \<Longrightarrow>
     computed_params ''Hydromorphone'' m p =
       (computed_params ''Hydromorphone'' ''Jeleazcov (2014) Adult'' p)
         \<lparr>Cl := Val 1.01 * jpow (weight p / Val 70) 0.75\<rparr>"
  by (simp add: AVAILABLE_MODELS_def computed_params_def Let_def)

lemma getPKParameters_of_zero_params:
  assumes "Val 0 < weight p" and "computed_params dr m p = zero_params"
  shows "getPKParameters dr m p =
       \<lparr>V1 = Val 1, V2 = Val 0, V3 = Val 0, Cl = Val 0, Q2 = Val 0, Q3 = Val 0, ke0 = Val 0\<rparr>"
  using pos_weight_passes [OF assms(1)] assms(2)
  by (simp add: getPKParameters_def zero_params_def)

text \<open>
  C10. For a patient of positive weight, Remifentanil, Morphine and Sufentanil with a model
  outside the drug's list give \<open>V1 = 1\<close> and every other parameter 0, which is not the
  neutral default set. Fentanyl and Hydromorphone have a fallback branch instead: an
  unlisted model gets the coefficients of the first listed model (for Hydromorphone without
  the age factor on the clearance).
\<close>

theorem getPKParameters_unmatched_model:
  assumes "Val 0 < weight p"
    and "dr \<in> {''Remifentanil'', ''Morphine'', ''Sufentanil''}"
    and "m \<notin> set (AVAILABLE_MODELS dr)"
  shows "getPKParameters dr m p =
       \<lparr>V1 = Val 1, V2 = Val 0, V3 = Val 0, Cl = Val 0, Q2 = Val 0, Q3 = Val 0, ke0 = Val 0\<rparr>
     \<and> getPKParameters dr m p \<noteq> neutral_defaults
     \<and> (m \<notin> set (AVAILABLE_MODELS ''Fentanyl'') \<longrightarrow>
          computed_params ''Fentanyl'' m p = computed_params ''Fentanyl'' ''Bae (2020) Adult'' p)
     \<and> (m \<notin> set (AVAILABLE_MODELS ''Hydromorphone'') \<longrightarrow>
          computed_params ''Hydromorphone'' m p =
            (computed_params ''Hydromorphone'' ''Jeleazcov (2014) Adult'' p)
              \<lparr>Cl := Val 1.01 * jpow (weight p / Val 70) 0.75\<rparr>)"
proof -
  from assms(2) consider "dr = ''Remifentanil''" | "dr = ''Morphine''" | "dr = ''Sufentanil''"
    by blast
  then have "computed_params dr m p = zero_params"
  proof cases
    case 1
    with assms(3) show ?thesis
      by (simp add: AVAILABLE_MODELS_def computed_params_Remifentanil_unmatched)
  next
    case 2
    with assms(3) show ?thesis
      by (simp add: AVAILABLE_MODELS_def computed_params_Morphine_unmatched)
  next
    case 3
    with assms(3) show ?thesis
      by (simp add: AVAILABLE_MODELS_def computed_params_Sufentanil_unmatched)
  qed
  with assms(1) have "getPKParameters dr m p =
       \<lparr>V1 = Val 1, V2 = Val 0, V3 = Val 0, Cl = Val 0, Q2 = Val 0, Q3 = Val 0, ke0 = Val 0\<rparr>"
    by (rule getPKParameters_of_zero_params)
  then show ?thesis
    using computed_params_Fentanyl_unmatched [of m p]
      computed_params_Hydromorphone_unmatched [of m p]
    by (simp add: neutral_defaults_def)
qed

theorem getPKParameters_unmatched_model_witness:
  "Val 0 < weight adult_70kg
   \<and> ''Morphine'' \<in> {''Remifentanil'', ''Morphine'', ''Sufentanil''}
   \<and> ''No such model'' \<notin> set (AVAILABLE_MODELS ''Morphine'')
   \<and> ''No such model'' \<notin> set (AVAILABLE_MODELS ''Fentanyl'')
   \<and> ''No such model'' \<notin> set (AVAILABLE_MODELS ''Hydromorphone'')
   \<and> getPKParameters ''Morphine'' ''No such model'' adult_70kg =
       \<lparr>V1 = Val 1, V2 = Val 0, V3 = Val 0, Cl = Val 0, Q2 = Val 0, Q3 = Val 0, ke0 = Val 0\<rparr>
   \<and> computed_params ''Fentanyl'' ''No such model'' adult_70kg =
       computed_params ''Fentanyl'' ''Bae (2020) Adult'' adult_70kg"
proof -
  have w: "Val 0 < weight adult_70kg"
    by (simp add: adult_70kg_def)
  have d: "''Morphine'' \<in> {''Remifentanil'', ''Morphine'', ''Sufentanil''}"
    by simp
  have m: "''No such model'' \<notin> set (AVAILABLE_MODELS ''Morphine'')"
    by (simp add: AVAILABLE_MODELS_def)
  have f: "''No such model'' \<notin> set (AVAILABLE_MODELS ''Fentanyl'')"
    by (simp add: AVAILABLE_MODELS_def)
  have h: "''No such model'' \<notin> set (AVAILABLE_MODELS ''Hydromorphone'')"
    by (simp add: AVAILABLE_MODELS_def)
  from getPKParameters_unmatched_model [OF w d m] w d m f h show ?thesis
    by simp
qed

section \<open>Growth estimation: the piecewise function\<close>

text \<open>
  C8. \<open>estimateGrowth\<close> on the ranges of the claim: a negative age gives 50 cm and 3 kg;
  age 0 gives 60 and 6; from 1 to 12 the rounded lines \<open>75 + (age - 1) * 6.8\<close> and
  \<open>9 + (age - 1) * 3.0\<close>; above 12 and up to 18 the rounded lines of the gender, capped at
  171 and 65 (male) or 158 and 53 (female); above 18 the adult reference of the gender. At
  exactly 18 a male gets 171 and 65, not the adult 171 and 68.
\<close>

theorem estimateGrowth_piecewise:
  "(a0 < Val 0 \<longrightarrow> estimateGrowth a0 g = \<lparr>height = Val 50, weight = Val 3\<rparr>)
   \<and> estimateGrowth (Val 0) g = \<lparr>height = Val 60, weight = Val 6\<rparr>
   \<and> (1 \<le> a1 \<and> a1 \<le> 12 \<longrightarrow>
        estimateGrowth (Val a1) g =
          \<lparr>height = Val (of_int \<lfloor>75 + (a1 - 1) * 6.8 + 1 / 2\<rfloor>),
           weight = Val (of_int \<lfloor>9 + (a1 - 1) * 3.0 + 1 / 2\<rfloor>)\<rparr>)
   \<and> (12 < a2 \<and> a2 \<le> 18 \<longrightarrow>
        estimateGrowth (Val a2) ''male'' =
          \<lparr>height = Val (min (of_int \<lfloor>150 + (a2 - 12) * 3.5 + 1 / 2\<rfloor>) 171),
           weight = Val (min (of_int \<lfloor>40 + (a2 - 12) * 4.2 + 1 / 2\<rfloor>) 65)\<rparr>
        \<and> estimateGrowth (Val a2) ''female'' =
          \<lparr>height = Val (min (of_int \<lfloor>150 + (a2 - 12) * 1.5 + 1 / 2\<rfloor>) 158),
           weight = Val (min (of_int \<lfloor>40 + (a2 - 12) * 2.0 + 1 / 2\<rfloor>) 53)\<rparr>)
   \<and> (Val 18 < a3 \<longrightarrow>
        estimateGrowth a3 ''male'' = \<lparr>height = Val 171, weight = Val 68\<rparr>
        \<and> estimateGrowth a3 ''female'' = \<lparr>height = Val 158, weight = Val 53\<rparr>)
   \<and> estimateGrowth (Val 0) ''male'' = \<lparr>height = Val 60, weight = Val 6\<rparr>
   \<and> estimateGrowth (Val 18) ''male'' = \<lparr>height = Val 171, weight = Val 65\<rparr>
   \<and> estimateGrowth (Val 18) ''male'' \<noteq> \<lparr>height = Val 171, weight = Val 68\<rparr>"
proof -
  have c0: "a0 < Val 0 \<longrightarrow> estimateGrowth a0 g = \<lparr>height = Val 50, weight = Val 3\<rparr>"
    by (simp add: estimateGrowth_def)
  have c1: "estimateGrowth (Val 0) g = \<lparr>height = Val 60, weight = Val 6\<rparr>" for g
    by (simp add: estimateGrowth_def)
  have c2: "1 \<le> a1 \<and> a1 \<le> 12 \<longrightarrow>
        estimateGrowth (Val a1) g =
          \<lparr>height = Val (of_int \<lfloor>75 + (a1 - 1) * 6.8 + 1 / 2\<rfloor>),
           weight = Val (of_int \<lfloor>9 + (a1 - 1) * 3.0 + 1 / 2\<rfloor>)\<rparr>"
    by (simp add: estimateGrowth_def minus_jsnum_def Let_def)
  have c3: "12 < a2 \<and> a2 \<le> 18 \<longrightarrow>
        estimateGrowth (Val a2) ''male'' =
          \<lparr>height = Val (min (of_int \<lfloor>150 + (a2 - 12) * 3.5 + 1 / 2\<rfloor>) 171),
           weight = Val (min (of_int \<lfloor>40 + (a2 - 12) * 4.2 + 1 / 2\<rfloor>) 65)\<rparr>
        \<and> estimateGrowth (Val a2) ''female'' =
          \<lparr>height = Val (min (of_int \<lfloor>150 + (a2 - 12) * 1.5 + 1 / 2\<rfloor>) 158),
           weight = Val (min (of_int \<lfloor>40 + (a2 - 12) * 2.0 + 1 / 2\<rfloor>) 53)\<rparr>"
    by (simp add: estimateGrowth_def minus_jsnum_def Let_def min_def)
  have c4: "Val 18 < a3 \<longrightarrow>
        estimateGrowth a3 ''male'' = \<lparr>height = Val 171, weight = Val 68\<rparr>
        \<and> estimateGrowth a3 ''female'' = \<lparr>height = Val 158, weight = Val 53\<rparr>"
    by (cases a3) (simp_all add: estimateGrowth_def)
  have c5: "estimateGrowth (Val 18) ''male'' = \<lparr>height = Val 171, weight = Val 65\<rparr>"
    by (simp add: estimateGrowth_def minus_jsnum_def Let_def)
  from c0 c1 c2 c3 c4 c5 show ?thesis
    by simp
qed

theorem estimateGrowth_piecewise_witness:
  "Val (- 1) < Val 0 \<and> estimateGrowth (Val (- 1)) ''male'' = \<lparr>height = Val 50, weight = Val 3\<rparr>
   \<and> (1::real) \<le> 5 \<and> (5::real) \<le> 12
   \<and> estimateGrowth (Val 5) ''male'' = \<lparr>height = Val 102, weight = Val 21\<rparr>
   \<and> (12::real) < 15 \<and> (15::real) \<le> 18
   \<and> estimateGrowth (Val 15) ''male'' = \<lparr>height = Val 161, weight = Val 53\<rparr>
   \<and> estimateGrowth (Val 15) ''female'' = \<lparr>height = Val 155, weight = Val 46\<rparr>
   \<and> Val 18 < Val 30
   \<and> estimateGrowth (Val 30) ''male'' = \<lparr>height = Val 171, weight = Val 68\<rparr>
   \<and> estimateGrowth (Val 30) ''female'' = \<lparr>height = Val 158, weight = Val 53\<rparr>"
  using estimateGrowth_piecewise [of "Val (- 1)" "''male''" 5 15 "Val 30"]
  by simp

section \<open>The dosing timeline: an indefinite infusion\<close>

text \<open>
  C6, as the code has it. An infusion added as indefinite with start \<open>t\<close> (0 when clock
  mode resets a negative start) and horizon \<open>H\<close> is stored with duration \<open>H - t + 60\<close>; it
  expands to a start at \<open>t\<close> and a stop at \<open>t + duration = H + 60\<close>. The stored duration does
  not depend on the horizon afterwards: changing the horizon leaves the expansion as it is.
  For \<open>t = 10\<close> and \<open>H = 120\<close> the duration is 170 and the stop is at 180.
\<close>

theorem addInfusion_indefinite:
  assumes "isInfiniteDuration st"
  shows "events (addInfusion now st) =
           (if isClockMode st \<and> infusionStartTime st < 0
            then map (shift_event (- infusionStartTime st)) (events st) else events st) @
           [InfusionEntry now
              (if isClockMode st \<and> infusionStartTime st < 0 then 0 else infusionStartTime st)
              (convertToStandardUnit (infusionRate st) (infusionUnit st) (patient_weight st)
                 (drug st))
              (infusionRate st) (infusionUnit st)
              (simDuration st
                - (if isClockMode st \<and> infusionStartTime st < 0 then 0 else infusionStartTime st)
                + 60)]
     \<and> expand_event (last (events (addInfusion now st))) =
           [InfusionStart
              (if isClockMode st \<and> infusionStartTime st < 0 then 0 else infusionStartTime st)
              (convertToStandardUnit (infusionRate st) (infusionUnit st) (patient_weight st)
                 (drug st)),
            InfusionStop (simDuration st + 60)]
     \<and> processedEvents ((addInfusion now st)\<lparr>simDuration := H'\<rparr>) =
           processedEvents (addInfusion now st)"
  using assms by (simp add: addInfusion_def Let_def processedEvents_def)

theorem addInfusion_indefinite_witness:
  "isInfiniteDuration indefinite_form
   \<and> events (addInfusion 1 indefinite_form) =
       [InfusionEntry 1 10 (Val 60) (Val 60) ''mcg/hr'' 170]
   \<and> expand_event (last (events (addInfusion 1 indefinite_form))) =
       [InfusionStart 10 (Val 60), InfusionStop 180]"
  using addInfusion_indefinite [of indefinite_form 1]
  by (simp add: indefinite_form_def convertToStandardUnit_def valInMcgHr_def isMgDrug_def)

text \<open>
  C6 as stated fails: for \<open>t = 10\<close> and \<open>H = 120\<close> the expansion has its stop at 180, and
  no stop at 170.
\<close>

theorem addInfusion_stop_not_at_170:
  "processedEvents (addInfusion 1 indefinite_form) =
     [InfusionStart 10 (Val 60), InfusionStop 180]
   \<and> InfusionStop 170 \<notin> set (processedEvents (addInfusion 1 indefinite_form))"
  by (simp add: indefinite_form_def addInfusion_def Let_def processedEvents_def
      convertToStandardUnit_def valInMcgHr_def isMgDrug_def)

section \<open>The simulator: the loops as folds\<close>

declare process_events.simps [simp del]
declare for_loop.simps [simp del]

lemma for_loop_fold:
  "for_loop q p k sc T step s = fold (loop_body q p k sc) [step..<nat (T + 1)] s"
proof (induction q p k sc T step s rule: for_loop.induct)
  case (1 q p k sc T step s)
  show ?case
  proof (cases "int step \<le> T")
    case True
    then have "[step..<nat (T + 1)] = step # [Suc step..<nat (T + 1)]"
      by (simp add: upt_conv_Cons)
    with True 1 show ?thesis
      by (subst for_loop.simps) simp
  next
    case False
    then have "[step..<nat (T + 1)] = []" by simp
    with False show ?thesis
      by (subst for_loop.simps) simp
  qed
qed

lemma loop_state_Suc: "loop_state q p k sc (Suc n) = loop_body q p k sc n (loop_state q p k sc n)"
  by (simp add: loop_state_def)

lemma loop_state_0: "loop_state q p k sc 0 = init_state"
  by (simp add: loop_state_def)

lemma for_loop_sim_state_at:
  "for_loop (sort_key time evs) p (rate_consts p) (scaleFactor dr) T 0 init_state
     = sim_state_at evs p dr (nat (T + 1))"
  by (simp add: for_loop_fold sim_state_at_def loop_state_def)

lemma apply_event_eventIndex_update:
  "apply_event sc e (s\<lparr>eventIndex := i\<rparr>) = (apply_event sc e s)\<lparr>eventIndex := i\<rparr>"
  by (cases e) simp_all

lemma fold_apply_event_eventIndex_update:
  "fold (apply_event sc) W (s\<lparr>eventIndex := i\<rparr>) = (fold (apply_event sc) W s)\<lparr>eventIndex := i\<rparr>"
  by (induction W arbitrary: s) (simp_all add: apply_event_eventIndex_update)

lemma process_events_fold:
  "process_events q sc t s =
     (fold (apply_event sc) (takeWhile (\<lambda>e. time e \<le> t) (drop (eventIndex s) q)) s)
       \<lparr>eventIndex := eventIndex s + length (takeWhile (\<lambda>e. time e \<le> t) (drop (eventIndex s) q))\<rparr>"
proof (induction q sc t s rule: process_events.induct)
  case (1 q sc t s)
  show ?case
  proof (cases "eventIndex s < length q \<and> time (q ! eventIndex s) \<le> t")
    case True
    then have d: "drop (eventIndex s) q = q ! eventIndex s # drop (Suc (eventIndex s)) q"
      by (simp add: Cons_nth_drop_Suc)
    have ei: "eventIndex (apply_event sc e s) = eventIndex s" for e
      by (cases e) simp_all
    show ?thesis
      using True 1 by (subst process_events.simps) (simp add: d ei fold_apply_event_eventIndex_update)
  next
    case False
    then have "takeWhile (\<lambda>e. time e \<le> t) (drop (eventIndex s) q) = []"
      by (cases "eventIndex s < length q") (auto simp: takeWhile_eq_Nil_iff hd_drop_conv_nth)
    with False show ?thesis
      by (subst process_events.simps) auto
  qed
qed

lemma stepsPerMin_6: "stepsPerMin = 6"
  by (simp add: stepsPerMin_def dt_def)

section \<open>The simulator: what is sampled\<close>

lemma data_apply_event: "data (apply_event sc e s) = data s"
  by (cases e) simp_all

lemma data_fold_apply_event: "data (fold (apply_event sc) W s) = data s"
  by (induction W arbitrary: s) (simp_all add: data_apply_event)

lemma data_process_events: "data (process_events q sc t s) = data s"
  by (simp add: process_events_fold data_fold_apply_event)

lemma data_euler_update: "data (euler_update p k s) = data s"
  by (simp add: euler_update_def Let_def)

lemma emit_data_update: "emit p t (s\<lparr>data := d\<rparr>) = emit p t s"
  by (simp add: emit_def)

lemma data_loop_body:
  "data (loop_body q p k sc n s) =
     data s @ (if n mod 6 = 0 then [emit p (real n * dt) (loop_body q p k sc n s)] else [])"
  by (simp add: loop_body_def Let_def stepsPerMin_6 data_euler_update data_process_events
      emit_data_update)

lemma data_loop_state:
  "data (loop_state q p k sc n) =
     map (\<lambda>m. emit p (real (6 * m) * dt) (loop_state q p k sc (Suc (6 * m)))) [0..<(n + 5) div 6]"
proof (induction n)
  case 0
  show ?case by (simp add: loop_state_0 init_state_def)
next
  case (Suc n)
  let ?f = "\<lambda>m. emit p (real (6 * m) * dt) (loop_state q p k sc (Suc (6 * m)))"
  show ?case
  proof (cases "n mod 6 = 0")
    case True
    define c where "c = (n + 5) div 6"
    have n: "n = 6 * c" and c': "(Suc n + 5) div 6 = Suc c"
      using True unfolding c_def by presburger+
    have "data (loop_state q p k sc (Suc n)) = data (loop_state q p k sc n) @ [?f c]"
      using True by (simp add: loop_state_Suc data_loop_body n)
    also have "data (loop_state q p k sc n) = map ?f [0..<c]"
      using Suc.IH unfolding c_def .
    finally show ?thesis
      unfolding c' by simp
  next
    case False
    then have "(Suc n + 5) div 6 = (n + 5) div 6"
      by presburger
    moreover from False have "data (loop_state q p k sc (Suc n)) = data (loop_state q p k sc n)"
      by (simp add: loop_state_Suc data_loop_body)
    ultimately show ?thesis
      using Suc.IH by simp
  qed
qed

lemma simulate_loop_state:
  "\<not> (falsy (V1 p) \<or> V1 p \<le> Val 0) \<Longrightarrow>
   simulateConcentration evs p d dr =
     data (loop_state (sort_key time evs) p (rate_consts p) (scaleFactor dr) (nat (totalSteps d + 1)))"
  by (simp add: simulateConcentration_def for_loop_fold loop_state_def)

lemma stime_sample: "\<lfloor>real (6 * m) * dt + 1 / 2\<rfloor> = int m"
proof -
  have e: "real (6 * m) * dt + 1 / 2 = of_int (int m) + 1 / 2"
    by (simp add: dt_def)
  have "\<lfloor>(of_int (int m) :: real) + 1 / 2\<rfloor> = int m"
    by (rule floor_unique) simp_all
  then show ?thesis
    unfolding e .
qed

lemma x1_loop_body:
  "x1 (loop_body q p k sc n s) = x1 (euler_update p k (process_events q sc (real n * dt) s))"
  "xe (loop_body q p k sc n s) = xe (euler_update p k (process_events q sc (real n * dt) s))"
  by (simp_all add: loop_body_def Let_def)

lemma simulate_samples:
  assumes "\<not> (falsy (V1 p) \<or> V1 p \<le> Val 0)"
  shows "simulateConcentration evs p d dr =
     map (\<lambda>m. \<lparr>stime = int m,
               cp = sample_value (x1 (sim_state_at evs p dr (Suc (6 * m))) / V1 p),
               ce = sample_value (xe (sim_state_at evs p dr (Suc (6 * m))))\<rparr>)
       [0..<(nat (totalSteps d + 1) + 5) div 6]"
  unfolding simulate_loop_state [OF assms] data_loop_state sim_state_at_def
  by (simp add: emit_def stime_sample del: of_nat_mult)

text \<open>Evaluation at the example inputs, for one simulated step.\<close>

lemmas eval_defs = sim_state_at_def loop_state_def loop_body_def stepsPerMin_6 scaleFactor_def
  euler_update_def rate_consts_def init_state_def minus_jsnum_def dt_def stability_guard_def
  Let_def process_events.simps child_10kg_params_def

lemma V1_child: "V1 child_10kg_params = Val 7"
  by (simp add: child_10kg_params_def)

lemma child_valid: "\<not> (falsy (V1 child_10kg_params) \<or> V1 child_10kg_params \<le> Val 0)"
  by (simp add: child_10kg_params_def falsy_def)

lemma state_after_bolus:
  "x1 (sim_state_at [Bolus 0 (Val 70)] child_10kg_params ''Remifentanil'' (Suc 0)) = Val (409 / 6)"
  "xe (sim_state_at [Bolus 0 (Val 70)] child_10kg_params ''Remifentanil'' (Suc 0)) = Val (3 / 2)"
  by (simp_all add: eval_defs)



lemma one_sample: "(nat (totalSteps 0 + 1) + 5) div 6 = Suc 0"
  by (simp add: totalSteps_def)

lemma toFixed2_examples: "toFixed2 (409 / 42) = 974 / 100" "toFixed2 (3 / 2) = 3 / 2" "toFixed2 (1 / 6) = 17 / 100"
  "toFixed2 (208 / 21) = 99 / 10"
  by (simp_all add: toFixed2_def)

lemma toFixed2_zero: "toFixed2 0 = 0"
  by (simp add: toFixed2_def)

text \<open>
  C1, as the code has it. With a usable \<open>V1\<close> the series has one sample for every sixth
  step \<open>6 * m\<close> up to \<open>totalSteps\<close>, with time \<open>m\<close>, and its \<open>cp\<close> is \<open>x1 / V1\<close> rounded to two
  decimals (0 when not finite) with \<open>x1\<close> read at the end of that step: after the step's
  events, its Euler update and the stability guard. The \<open>ce\<close> is the effect-site value at
  the same point.
\<close>

theorem simulate_samples_after_update:
  assumes "\<not> (falsy (V1 p) \<or> V1 p \<le> Val 0)"
  shows "simulateConcentration evs p d dr =
     map (\<lambda>m. \<lparr>stime = int m,
               cp = sample_value (x1 (sim_state_at evs p dr (Suc (6 * m))) / V1 p),
               ce = sample_value (xe (sim_state_at evs p dr (Suc (6 * m))))\<rparr>)
       [0..<(nat (totalSteps d + 1) + 5) div 6]
   \<and> x1 (sim_state_at evs p dr (Suc n)) =
       x1 (euler_update p (rate_consts p)
             (process_events (sort_key time evs) (scaleFactor dr) (real n * dt)
                (sim_state_at evs p dr n)))
   \<and> xe (sim_state_at evs p dr (Suc n)) =
       xe (euler_update p (rate_consts p)
             (process_events (sort_key time evs) (scaleFactor dr) (real n * dt)
                (sim_state_at evs p dr n)))"
  using simulate_samples [OF assms]
  by (simp add: sim_state_at_def loop_state_Suc x1_loop_body)

theorem simulate_samples_after_update_witness:
  "\<not> (falsy (V1 child_10kg_params) \<or> V1 child_10kg_params \<le> Val 0)
   \<and> simulateConcentration [Bolus 0 (Val 70)] child_10kg_params 0 ''Remifentanil''
       = [\<lparr>stime = 0, cp = Val (974 / 100), ce = Val (3 / 2)\<rparr>]"
proof -
  have v: "\<not> (falsy (V1 child_10kg_params) \<or> V1 child_10kg_params \<le> Val 0)"
    by (simp add: V1_child falsy_def)
  from simulate_samples_after_update [OF v, of "[Bolus 0 (Val 70)]" 0 "''Remifentanil''" 0]
  have "simulateConcentration [Bolus 0 (Val 70)] child_10kg_params 0 ''Remifentanil'' =
     map (\<lambda>m. \<lparr>stime = int m,
               cp = sample_value (x1 (sim_state_at [Bolus 0 (Val 70)] child_10kg_params
                      ''Remifentanil'' (Suc (6 * m))) / V1 child_10kg_params),
               ce = sample_value (xe (sim_state_at [Bolus 0 (Val 70)] child_10kg_params
                      ''Remifentanil'' (Suc (6 * m))))\<rparr>) [0..<Suc 0]"
    by (simp only: one_sample)
  then have "simulateConcentration [Bolus 0 (Val 70)] child_10kg_params 0 ''Remifentanil''
       = [\<lparr>stime = 0, cp = Val (974 / 100), ce = Val (3 / 2)\<rparr>]"
    by (simp add: state_after_bolus V1_child toFixed2_examples)
  with v show ?thesis
    by blast
qed

text \<open>
  C1 as stated fails: a bolus of 70 at time 0 gives the emitted \<open>cp = 9.74\<close> at step 0,
  while \<open>x1 / V1\<close> read before the update of that step is 10 (after the step's events) or 0
  (before them).
\<close>

lemma process_events_example:
  "process_events [Bolus 0 (Val 70)] (Val 1) 0
     \<lparr>x1 = Val 0, x2 = Val 0, x3 = Val 0, xe = Val 0, data = [], eventIndex = 0,
      currentInfusionRate = Val 0\<rparr> =
     \<lparr>x1 = Val 70, x2 = Val 0, x3 = Val 0, xe = Val 0, data = [], eventIndex = 1,
      currentInfusionRate = Val 0\<rparr>"
  by (simp add: process_events.simps)

lemma totalSteps_zero: "totalSteps 0 = 0"
  by (simp add: totalSteps_def)

theorem simulate_cp_not_read_before_update:
  "map cp (simulateConcentration [Bolus 0 (Val 70)] child_10kg_params 0 ''Remifentanil'')
     = [Val (974 / 100)]
   \<and> sample_value (x1 (process_events (sort_key time [Bolus 0 (Val 70)])
         (scaleFactor ''Remifentanil'') (real 0 * dt) init_state) / V1 child_10kg_params) = Val 10
   \<and> sample_value (x1 init_state / V1 child_10kg_params) = Val 0"
  by (simp add: simulateConcentration_def child_10kg_params_def falsy_def totalSteps_zero
      for_loop.simps loop_body_def stepsPerMin_6 scaleFactor_def process_events_example euler_update_def
      rate_consts_def emit_def init_state_def minus_jsnum_def dt_def stability_guard_def
      toFixed2_def Let_def)

section \<open>The simulator without events\<close>

lemma falsy_times_zero: "falsy (k * Val 0)"
  by (cases k) (simp_all add: falsy_def)

lemma falsy_plus: "falsy a \<Longrightarrow> falsy b \<Longrightarrow> falsy (a + b)"
  by (auto simp: falsy_def)

lemma falsy_minus: "falsy a \<Longrightarrow> falsy b \<Longrightarrow> falsy (a - b)"
  by (auto simp: falsy_def minus_jsnum_def)

lemma falsy_zero: "falsy (Val 0)"
  by (simp add: falsy_def)

lemma guard_zero_plus_falsy: "falsy a \<Longrightarrow> stability_guard (Val 0 + a * Val c) = Val 0"
  by (auto simp: falsy_def stability_guard_def)

lemma zero_div_V1: "\<not> (falsy v \<or> v \<le> Val 0) \<Longrightarrow> Val 0 / v = Val 0"
  by (cases v) (auto simp: falsy_def)

lemma euler_update_at_rest:
  assumes "\<not> (falsy (V1 p) \<or> V1 p \<le> Val 0)" and "at_rest s"
  shows "at_rest (euler_update p k s)"
proof -
  from assms(2) have z: "x1 s = Val 0" "x2 s = Val 0" "x3 s = Val 0" "xe s = Val 0"
    "currentInfusionRate s = Val 0"
    by (simp_all add: at_rest_def)
  have d1: "falsy (Val 0 - (k10 k + k12 k + k13 k) * Val 0 + k21 k * Val 0 + k31 k * Val 0)"
    by (intro falsy_plus falsy_minus falsy_zero falsy_times_zero)
  have d2: "falsy (k12 k * Val 0 - k21 k * Val 0)"
    by (intro falsy_minus falsy_times_zero)
  have d3: "falsy (k13 k * Val 0 - k31 k * Val 0)"
    by (intro falsy_minus falsy_times_zero)
  have de: "falsy (ke0 p * (Val 0 / V1 p - Val 0))"
    using falsy_times_zero [of "ke0 p"] by (simp add: zero_div_V1 [OF assms(1)] minus_jsnum_def)
  show ?thesis
    by (simp add: at_rest_def euler_update_def Let_def z guard_zero_plus_falsy d1 d2 d3 de)
qed

lemma process_events_empty: "process_events [] sc t s = s"
  by (simp add: process_events_fold)

lemma loop_body_at_rest:
  assumes "\<not> (falsy (V1 p) \<or> V1 p \<le> Val 0)" and "at_rest s"
  shows "at_rest (loop_body [] p k sc n s)"
proof -
  have "at_rest (s'\<lparr>data := d\<rparr>) = at_rest s'" for s' :: sim_state and d
    by (simp add: at_rest_def)
  then show ?thesis
    using euler_update_at_rest [OF assms]
    by (simp add: loop_body_def Let_def process_events_empty)
qed

lemma loop_state_at_rest:
  assumes "\<not> (falsy (V1 p) \<or> V1 p \<le> Val 0)"
  shows "at_rest (loop_state [] p k sc n)"
proof (induction n)
  case 0
  show ?case by (simp add: loop_state_0 at_rest_def init_state_def)
next
  case (Suc n)
  then show ?case
    by (simp add: loop_state_Suc loop_body_at_rest [OF assms])
qed

text \<open>
  C9. For every parameter set, duration and drug, every sample of the series for the empty
  event list has \<open>cp = 0\<close> and \<open>ce = 0\<close>.
\<close>

theorem simulate_no_events:
  "\<forall>s \<in> set (simulateConcentration [] p d dr). cp s = Val 0 \<and> ce s = Val 0"
proof (cases "falsy (V1 p) \<or> V1 p \<le> Val 0")
  case True
  then show ?thesis
    by (simp add: simulateConcentration_def)
next
  case False
  have r: "at_rest (sim_state_at [] p dr n)" for n
    unfolding sim_state_at_def using loop_state_at_rest [OF False] by simp
  show ?thesis
    unfolding simulate_samples [OF False]
    using r by (auto simp: at_rest_def zero_div_V1 [OF False] toFixed2_zero)
qed

theorem simulate_no_events_witness:
  "hd (simulateConcentration [] child_10kg_params 0 ''Remifentanil'')
     \<in> set (simulateConcentration [] child_10kg_params 0 ''Remifentanil'')
   \<and> cp (hd (simulateConcentration [] child_10kg_params 0 ''Remifentanil'')) = Val 0
   \<and> ce (hd (simulateConcentration [] child_10kg_params 0 ''Remifentanil'')) = Val 0"
proof -
  have "simulateConcentration [] child_10kg_params 0 ''Remifentanil'' \<noteq> []"
    unfolding simulate_samples [OF child_valid] one_sample by simp
  then have "hd (simulateConcentration [] child_10kg_params 0 ''Remifentanil'')
     \<in> set (simulateConcentration [] child_10kg_params 0 ''Remifentanil'')"
    by (rule hd_in_set)
  with simulate_no_events [of child_10kg_params 0 "''Remifentanil''"] show ?thesis
    by blast
qed

section \<open>The simulator: one infusion rate\<close>

lemma sorted_takeWhile_filter:
  "sorted (map time q) \<Longrightarrow> takeWhile (\<lambda>e. time e \<le> t) q = filter (\<lambda>e. time e \<le> t) q"
proof (induction q)
  case Nil
  show ?case by simp
next
  case (Cons x xs)
  show ?case
  proof (cases "time x \<le> t")
    case True
    with Cons show ?thesis by simp
  next
    case False
    with Cons.prems have "\<forall>e \<in> set xs. \<not> time e \<le> t"
      by auto
    then have "filter (\<lambda>e. time e \<le> t) xs = []"
      by (simp add: filter_empty_conv)
    with False show ?thesis by simp
  qed
qed

lemma last_infusion_event_Nil: "last_infusion_event [] = None"
  by (simp add: last_infusion_event_def)

lemma last_infusion_event_append:
  "last_infusion_event (xs @ ys) =
     (case last_infusion_event ys of None \<Rightarrow> last_infusion_event xs | Some e \<Rightarrow> Some e)"
  by (simp add: last_infusion_event_def)

lemma last_infusion_event_Cons:
  "last_infusion_event (x # ys) =
     (case last_infusion_event ys of
        None \<Rightarrow> (if is_infusion_event x then Some x else None)
      | Some e \<Rightarrow> Some e)"
  using last_infusion_event_append [of "[x]" ys]
  by (simp add: last_infusion_event_def)

lemma rate_apply_event:
  "currentInfusionRate (apply_event sc e s) =
     (if is_infusion_event e then rate_set_by sc e else currentInfusionRate s)"
  by (cases e) simp_all

lemma rate_fold_apply_event:
  "currentInfusionRate (fold (apply_event sc) W s) =
     (case last_infusion_event W of None \<Rightarrow> currentInfusionRate s | Some e \<Rightarrow> rate_set_by sc e)"
proof (induction W arbitrary: s)
  case Nil
  show ?case by (simp add: last_infusion_event_Nil)
next
  case (Cons x W)
  show ?case
    by (simp add: Cons.IH last_infusion_event_Cons rate_apply_event split: option.splits)
qed

lemma process_events_prefix:
  assumes "sorted (map time q)" and "caught_up q sc t s"
  shows "take (eventIndex (process_events q sc t s)) q = filter (\<lambda>e. time e \<le> t) q"
    and "currentInfusionRate (process_events q sc t s) =
           active_rate sc (filter (\<lambda>e. time e \<le> t) q)"
proof -
  let ?P = "\<lambda>e. time e \<le> t"
  let ?i = "eventIndex s"
  let ?W = "takeWhile ?P (drop ?i q)"
  from assms(2) have pre: "\<forall>e \<in> set (take ?i q). ?P e"
    and r: "currentInfusionRate s = active_rate sc (take ?i q)"
    by (simp_all add: caught_up_def)
  have "takeWhile ?P (take ?i q @ drop ?i q) = take ?i q @ ?W"
    using pre by (intro takeWhile_append2) simp
  then have tw: "take ?i q @ ?W = filter ?P q"
    using sorted_takeWhile_filter [OF assms(1), of t] by simp
  have "take (?i + length ?W) q = take ?i q @ take (length ?W) (drop ?i q)"
    by (simp add: take_add)
  also have "take (length ?W) (drop ?i q) = ?W"
    by (simp add: takeWhile_eq_take [symmetric])
  finally show 1: "take (eventIndex (process_events q sc t s)) q = filter ?P q"
    using tw by (simp add: process_events_fold)
  have "currentInfusionRate (process_events q sc t s) =
          (case last_infusion_event ?W of None \<Rightarrow> currentInfusionRate s
           | Some e \<Rightarrow> rate_set_by sc e)"
    by (simp add: process_events_fold rate_fold_apply_event)
  also have "\<dots> = active_rate sc (take ?i q @ ?W)"
    by (simp add: active_rate_def last_infusion_event_append r split: option.splits)
  finally show "currentInfusionRate (process_events q sc t s) = active_rate sc (filter ?P q)"
    using tw by simp
qed

lemma loop_body_keeps_queue_state:
  "eventIndex (loop_body q p k sc n s) = eventIndex (process_events q sc (real n * dt) s)"
  "currentInfusionRate (loop_body q p k sc n s) =
     currentInfusionRate (process_events q sc (real n * dt) s)"
  by (simp_all add: loop_body_def Let_def euler_update_def)

lemma loop_state_caught_up:
  assumes "sorted (map time q)"
  shows "caught_up q sc (real n * dt) (loop_state q p k sc n)"
proof (induction n)
  case 0
  show ?case
    by (simp add: loop_state_0 caught_up_def init_state_def active_rate_def
        last_infusion_event_Nil)
next
  case (Suc n)
  let ?s = "loop_state q p k sc n"
  have le: "real n * dt \<le> real (Suc n) * dt"
    by (simp add: dt_def)
  have "\<forall>e \<in> set (filter (\<lambda>e. time e \<le> real n * dt) q). time e \<le> real (Suc n) * dt"
    using le by auto
  then show ?case
    using process_events_prefix [OF assms Suc]
    by (simp add: caught_up_def loop_state_Suc loop_body_keeps_queue_state)
qed

lemma overlapping_rates:
  "active_rate (scaleFactor ''Remifentanil'')
     (filter (\<lambda>e. time e \<le> real 0 * dt) (sort_key time overlapping_infusions)) = Val 7"
  "active_rate (scaleFactor ''Remifentanil'')
     (filter (\<lambda>e. time e \<le> real 6 * dt) (sort_key time overlapping_infusions)) = Val 14"
  "active_rate (scaleFactor ''Remifentanil'')
     (filter (\<lambda>e. time e \<le> real 18 * dt) (sort_key time overlapping_infusions)) = Val 0"
  by (simp_all add: overlapping_infusions_def active_rate_def last_infusion_event_def
      scaleFactor_def dt_def)

text \<open>
  C4. The loop of \<open>simulateConcentration\<close> passes through the states \<open>sim_state_at\<close>. At
  every step \<open>n\<close>, after the event loop, the processed events are exactly the events of the
  sorted queue with time at most \<open>n * dt\<close>, and the one infusion-rate scalar is the rate set
  by the last infusion event among them: \<open>rate * scaleFactor / 60\<close> of the most recently
  processed \<open>infusion_start\<close> when no \<open>infusion_stop\<close> was processed after it, and 0 after an
  \<open>infusion_stop\<close> (and when no infusion event was processed). Rates are not summed: after
  starts at rates 60 and 120 the scalar is 2, not 3.
\<close>

theorem simulate_single_infusion_rate:
  "for_loop (sort_key time evs) p (rate_consts p) (scaleFactor dr) T 0 init_state
     = sim_state_at evs p dr (nat (T + 1))
   \<and> take (eventIndex (process_events (sort_key time evs) (scaleFactor dr) (real n * dt)
           (sim_state_at evs p dr n))) (sort_key time evs)
     = filter (\<lambda>e. time e \<le> real n * dt) (sort_key time evs)
   \<and> currentInfusionRate (process_events (sort_key time evs) (scaleFactor dr) (real n * dt)
           (sim_state_at evs p dr n))
     = active_rate (scaleFactor dr) (filter (\<lambda>e. time e \<le> real n * dt) (sort_key time evs))
   \<and> active_rate (scaleFactor ''Fentanyl'')
        (filter (\<lambda>e. time e \<le> real 6 * dt)
           (sort_key time [InfusionStart 0 (Val 60), InfusionStart 1 (Val 120)])) = Val 2
   \<and> active_rate (scaleFactor ''Fentanyl'')
        (filter (\<lambda>e. time e \<le> real 12 * dt)
           (sort_key time [InfusionStart 0 (Val 60), InfusionStart 1 (Val 120), InfusionStop 2]))
       = Val 0"
proof -
  have s: "sorted (map time (sort_key time evs))"
    by simp
  note pe = process_events_prefix [OF s loop_state_caught_up [OF s]]
  have ex1: "active_rate (scaleFactor ''Fentanyl'')
        (filter (\<lambda>e. time e \<le> real 6 * dt)
           (sort_key time [InfusionStart 0 (Val 60), InfusionStart 1 (Val 120)])) = Val 2"
    by (simp add: active_rate_def last_infusion_event_def scaleFactor_def dt_def)
  have ex2: "active_rate (scaleFactor ''Fentanyl'')
        (filter (\<lambda>e. time e \<le> real 12 * dt)
           (sort_key time [InfusionStart 0 (Val 60), InfusionStart 1 (Val 120), InfusionStop 2]))
       = Val 0"
    by (simp add: active_rate_def last_infusion_event_def scaleFactor_def dt_def)
  from pe ex1 ex2 for_loop_sim_state_at [of evs p dr T] show ?thesis
    unfolding sim_state_at_def by simp
qed

theorem simulate_single_infusion_rate_witness:
  "currentInfusionRate (process_events (sort_key time overlapping_infusions)
       (scaleFactor ''Remifentanil'') (real 6 * dt)
       (sim_state_at overlapping_infusions child_10kg_params ''Remifentanil'' 6)) = Val 14
   \<and> currentInfusionRate (process_events (sort_key time overlapping_infusions)
       (scaleFactor ''Remifentanil'') (real 18 * dt)
       (sim_state_at overlapping_infusions child_10kg_params ''Remifentanil'' 18)) = Val 0"
  using simulate_single_infusion_rate [of overlapping_infusions child_10kg_params
      "''Remifentanil''" 0 6]
    simulate_single_infusion_rate [of overlapping_infusions child_10kg_params
      "''Remifentanil''" 0 18]
  by (simp only: overlapping_rates)

section \<open>The simulator: additivity\<close>

lemma isFinite_iff: "isFinite x \<longleftrightarrow> (\<exists>r. x = Val r)"
  by (cases x) simp_all

lemma isFinite_plus: "isFinite (x + y) \<longleftrightarrow> isFinite x \<and> isFinite y"
  by (cases x; cases y) simp_all

lemma isFinite_uminus: "isFinite (- x) \<longleftrightarrow> isFinite x"
  by (cases x) simp_all

lemma isFinite_minus: "isFinite (x - y) \<longleftrightarrow> isFinite x \<and> isFinite y"
  by (simp add: minus_jsnum_def isFinite_plus isFinite_uminus)
























lemma last_infusion_event_cong:
  "filter is_infusion_event es = filter is_infusion_event es' \<Longrightarrow>
     last_infusion_event es = last_infusion_event es'"
  by (simp add: last_infusion_event_def)

lemma infusion_events_filter_sort:
  "filter is_infusion_event (filter P (sort_key time E)) =
     filter P (sort_key time (filter is_infusion_event E))"
proof -
  have "filter is_infusion_event (filter P (sort_key time E)) =
          filter P (filter is_infusion_event (sort_key time E))"
    by (simp add: conj_commute)
  then show ?thesis
    by (simp only: filter_sort)
qed

lemma no_infusion_events: "(\<forall>e \<in> set E. \<not> is_infusion_event e) \<Longrightarrow> filter is_infusion_event E = []"
  by (simp add: filter_empty_conv)

lemma active_rate_append_right:
  assumes "\<forall>e \<in> set B. \<not> is_infusion_event e"
  shows "active_rate sc (filter P (sort_key time (A @ B))) =
           active_rate sc (filter P (sort_key time A))"
    and "active_rate sc (filter P (sort_key time (B @ A))) =
           active_rate sc (filter P (sort_key time A))"
    and "active_rate sc (filter P (sort_key time B)) = Val 0"
proof -
  have b: "filter is_infusion_event B = []"
    using assms by (rule no_infusion_events)
  have "filter is_infusion_event (filter P (sort_key time (A @ B))) =
          filter is_infusion_event (filter P (sort_key time A))"
    by (simp only: infusion_events_filter_sort filter_append b append_Nil2)
  from last_infusion_event_cong [OF this]
  show "active_rate sc (filter P (sort_key time (A @ B))) =
           active_rate sc (filter P (sort_key time A))"
    by (simp only: active_rate_def)
  have "filter is_infusion_event (filter P (sort_key time (B @ A))) =
          filter is_infusion_event (filter P (sort_key time A))"
    by (simp only: infusion_events_filter_sort filter_append b append_Nil)
  from last_infusion_event_cong [OF this]
  show "active_rate sc (filter P (sort_key time (B @ A))) =
           active_rate sc (filter P (sort_key time A))"
    by (simp only: active_rate_def)
  have "filter is_infusion_event (filter P (sort_key time B)) = []"
    by (simp only: infusion_events_filter_sort b sort_key_simps filter.simps)
  then show "active_rate sc (filter P (sort_key time B)) = Val 0"
    by (simp add: active_rate_def last_infusion_event_def)
qed

lemma last_infusion_event_in_set: "last_infusion_event es = Some e \<Longrightarrow> e \<in> set es"
proof -
  assume a: "last_infusion_event es = Some e"
  then have ne: "filter is_infusion_event es \<noteq> []" and e: "e = last (filter is_infusion_event es)"
    by (auto simp: last_infusion_event_def split: if_splits)
  from ne have "last (filter is_infusion_event es) \<in> set (filter is_infusion_event es)"
    by (rule last_in_set)
  with e show ?thesis by simp
qed

lemma rate_set_by_finite:
  assumes "finite_dose e"
  shows "isFinite (rate_set_by (Val c) e)"
proof (cases e)
  case (Bolus tm a)
  then show ?thesis by simp
next
  case (InfusionStart tm r)
  with assms obtain v where "r = Val v"
    by (auto simp: isFinite_iff)
  with InfusionStart show ?thesis by simp
next
  case (InfusionStop tm)
  then show ?thesis by simp
qed

lemma active_rate_finite:
  assumes "\<forall>e \<in> set es. finite_dose e"
  shows "isFinite (active_rate (Val c) es)"
proof (cases "last_infusion_event es")
  case None
  then show ?thesis by (simp add: active_rate_def)
next
  case (Some e)
  then have "e \<in> set es" by (rule last_infusion_event_in_set)
  with assms have "finite_dose e" by blast
  then show ?thesis
    using Some by (simp add: active_rate_def rate_set_by_finite)
qed

lemma is_sum_zero_right: "isFinite x \<Longrightarrow> is_sum x x (Val 0)"
  by (auto simp: is_sum_def isFinite_iff)

lemma is_sum_zero_left: "isFinite x \<Longrightarrow> is_sum x (Val 0) x"
  by (auto simp: is_sum_def isFinite_iff)






text \<open>
  Two cases in which the rates add: at most one of the lists has infusion events; and one
  infusion in each list, the second starting when or after the first has stopped.
\<close>

lemma rates_add_one_sided:
  assumes fin: "\<forall>e \<in> set (A @ B). finite_dose e"
    and os: "(\<forall>e \<in> set A. \<not> is_infusion_event e) \<or> (\<forall>e \<in> set B. \<not> is_infusion_event e)"
  shows "rates_add A B (Val c) T"
proof -
  have "is_sum (rate_at (A @ B) (Val c) t) (rate_at A (Val c) t) (rate_at B (Val c) t)" for t
  proof -
    let ?P = "\<lambda>e. time e \<le> t"
    have fA: "isFinite (active_rate (Val c) (filter ?P (sort_key time A)))"
      using fin by (intro active_rate_finite) simp
    have fB: "isFinite (active_rate (Val c) (filter ?P (sort_key time B)))"
      using fin by (intro active_rate_finite) simp
    from os show ?thesis
    proof
      assume na: "\<forall>e \<in> set A. \<not> is_infusion_event e"
      have "active_rate (Val c) (filter ?P (sort_key time (A @ B)))
            = active_rate (Val c) (filter ?P (sort_key time B))"
        and "active_rate (Val c) (filter ?P (sort_key time A)) = Val 0"
        by (rule active_rate_append_right(2) [OF na], rule active_rate_append_right(3) [OF na])
      then show ?thesis
        unfolding rate_at_def using fB by (simp add: is_sum_zero_left)
    next
      assume nb: "\<forall>e \<in> set B. \<not> is_infusion_event e"
      have "active_rate (Val c) (filter ?P (sort_key time (A @ B)))
            = active_rate (Val c) (filter ?P (sort_key time A))"
        and "active_rate (Val c) (filter ?P (sort_key time B)) = Val 0"
        by (rule active_rate_append_right(1) [OF nb], rule active_rate_append_right(3) [OF nb])
      then show ?thesis
        unfolding rate_at_def using fA by (simp add: is_sum_zero_right)
    qed
  qed
  then show ?thesis
    by (simp add: rates_add_def list_all_iff)
qed
























end
